theory Spec2Isabelle
  imports Main
begin

section \<open>Values, paths and the outside world\<close>

text \<open>
  The program (\<^verbatim>\<open>src/main.py\<close>) reads a JSON file, and from then on works on the value
  \<^verbatim>\<open>json.load\<close> returned. Python does not type that value, so the model keeps every
  shape it can have: \<^verbatim>\<open>None\<close>, a bool, a number, a \<^verbatim>\<open>str\<close>, a \<^verbatim>\<open>list\<close>, a \<^verbatim>\<open>dict\<close>.
  A number is kept as the text of its literal, since the program never computes with one.
  A \<^verbatim>\<open>dict\<close> is kept as its list of items and read with \<open>map_of\<close>.
\<close>

datatype json =
    JNull
  | JBool bool
  | JNum string
  | JStr string
  | JArr "json list"
  | JObj "(string \<times> json) list"

text \<open>The Python exception classes that occur; each is a subclass of \<^verbatim>\<open>Exception\<close>.\<close>

datatype exn =
    KeyError
  | TypeError
  | AttributeError
  | ValueError
  | JSONDecodeError
  | UnicodeDecodeError
  | OSError
  | ProviderError

text \<open>
  A path as \<^verbatim>\<open>pathlib\<close> keeps it on a POSIX system: the root (\<^verbatim>\<open>/\<close>, \<^verbatim>\<open>//\<close> or none) and
  the components below it. The file a path names is its last component, in the directory
  the others name.
\<close>

datatype path = PosixPath string "string list"

text \<open>\<^verbatim>\<open>s.split(sep)\<close> for a separator of one character.\<close>

fun split_on :: "char \<Rightarrow> string \<Rightarrow> string list" where
  "split_on sep [] = [[]]"
| "split_on sep (c # cs) =
     (if c = sep then [] # split_on sep cs
      else (case split_on sep cs of
              [] \<Rightarrow> [[c]]
            | piece # pieces \<Rightarrow> (c # piece) # pieces))"

text \<open>
  The root of a path string: exactly two leading slashes are kept as they are, one or
  three and more are the root \<^verbatim>\<open>/\<close>.
\<close>

fun root_of :: "string \<Rightarrow> string" where
  "root_of [] = []"
| "root_of [a] = (if a = CHR ''/'' then ''/'' else [])"
| "root_of [a, b] = (if a = CHR ''/'' then (if b = CHR ''/'' then ''//'' else ''/'') else [])"
| "root_of (a # b # c # s) =
     (if a = CHR ''/'' then (if b = CHR ''/'' \<and> c \<noteq> CHR ''/'' then ''//'' else ''/'') else [])"

text \<open>The components of a path string: empty ones and \<^verbatim>\<open>.\<close> are dropped, \<^verbatim>\<open>..\<close> is kept.\<close>

definition components :: "string \<Rightarrow> string list" where
  "components s = filter (\<lambda>piece. piece \<noteq> [] \<and> piece \<noteq> ''.'') (split_on (CHR ''/'') s)"

text \<open>\<^verbatim>\<open>Path(s)\<close>.\<close>

definition Path :: "string \<Rightarrow> path" where
  "Path s = PosixPath (root_of s) (components s)"

text \<open>
  \<^verbatim>\<open>p / s\<close>: a string with a root takes the place of \<open>p\<close>; any other string adds its
  components to those of \<open>p\<close>.
\<close>

fun Slash :: "path \<Rightarrow> string \<Rightarrow> path" where
  "Slash (PosixPath root parts) s =
     (if root_of s \<noteq> [] then Path s else PosixPath root (parts @ components s))"

datatype level = INFO | WARNING | ERROR

text \<open>One constructor for each \<^verbatim>\<open>logging\<close> call of the source, with the values it formats.\<close>

datatype message =
    ConfigNotFound string
  | JsonDecodeFailed string
  | InvalidConfiguration exn
  | UnexpectedConfigError exn
  | LoadedRequests nat string
  | Fetching json json json
  | NoDataFound json
  | SavedTo path
  | FetchOrSaveFailed json exn
  | OutputDirSet path
  | OutputDirFailed path
  | NoRequests
  | AllComplete

text \<open>A row of the provider's table, as the text of its cells; the program never reads one.\<close>

type_synonym row = "string list"

text \<open>
  What a run does that can be seen from outside, oldest first: a log line, the output
  directory made sure of (\<^verbatim>\<open>mkdir(parents=True, exist_ok=True)\<close> returned), a table
  written to a file (\<^verbatim>\<open>to_csv\<close> returned), a file that a \<^verbatim>\<open>to_csv\<close> which raised had
  already made (the program removes nothing).
\<close>

datatype event =
    Log level message
  | Mkdir path
  | WroteCsv path "row list"
  | LeftFile path

text \<open>
  What the program finds at the configuration path: nothing (\<^verbatim>\<open>exists()\<close> is false), a
  file whose opening, reading or parsing raises, or a file that \<^verbatim>\<open>json.load\<close> turns into
  a value.
\<close>

datatype config_file = Missing | ReadRaises exn | Parsed json

text \<open>
  What \<^verbatim>\<open>yf.Ticker(ticker).history(start=start, end=end)\<close> does: it raises, or it returns
  a table. The provider's tables have its fixed columns, so \<^verbatim>\<open>.empty\<close> is "no rows".
\<close>

datatype fetch_result = Raises exn | Frame "row list"

text \<open>
  What \<^verbatim>\<open>history_df.to_csv(output_path)\<close> does: it returns, the file written; or it raises
  an exception, having made a file at the path before that (\<open>True\<close>) or not (\<open>False\<close>).
\<close>

datatype write_result = WriteReturns | WriteRaises exn bool

text \<open>
  The outside world, as the answers it gives to the program's calls. The worker's calls
  are indexed by the position of the request in the batch, so that the provider and the
  disk may answer two equal requests differently.
  \<^item> \<open>read_config\<close>: the configuration file at a path;
  \<^item> \<open>mkdir_ok\<close>: whether \<^verbatim>\<open>OUTPUT_DIR.mkdir(parents=True, exist_ok=True)\<close> returns
    (\<open>False\<close>: it raises \<^verbatim>\<open>OSError\<close>);
  \<^item> \<open>history\<close>: the provider's answer to the k-th request;
  \<^item> \<open>to_csv\<close>: what \<^verbatim>\<open>to_csv\<close> of the k-th request does at a path;
  \<^item> \<open>str_of\<close>: Python's \<^verbatim>\<open>str()\<close> of a value that is not a \<^verbatim>\<open>str\<close>.
\<close>

record world =
  read_config :: "string \<Rightarrow> config_file"
  mkdir_ok :: bool
  history :: "nat \<Rightarrow> json \<Rightarrow> json \<Rightarrow> json \<Rightarrow> fetch_result"
  to_csv :: "nat \<Rightarrow> path \<Rightarrow> write_result"
  str_of :: "json \<Rightarrow> string"

text \<open>The write of the k-th request at a path returns.\<close>

definition to_csv_ok :: "world \<Rightarrow> nat \<Rightarrow> path \<Rightarrow> bool" where
  "to_csv_ok env k p = (to_csv env k p = WriteReturns)"

text \<open>How a function ends: it returns, or an exception leaves it.\<close>

datatype status = Returned | Raised exn

text \<open>How the process ends: \<^verbatim>\<open>sys.exit(n)\<close> or a normal return (status 0), or an exception
  nobody caught (Python prints the traceback and the status is 1).\<close>

datatype outcome = Exit nat | Uncaught exn

fun exit_status :: "outcome \<Rightarrow> nat" where
  "exit_status (Exit n) = n"
| "exit_status (Uncaught e) = 1"

definition OUTPUT_DIR :: path where
  "OUTPUT_DIR = Path ''historical_data''"

section \<open>Python's operators on the loaded value\<close>

fun startswith :: "string \<Rightarrow> string \<Rightarrow> bool" where
  "startswith s [] = True"
| "startswith [] (p # ps) = False"
| "startswith (c # cs) (p # ps) = (c = p \<and> startswith cs ps)"

fun is_substring :: "string \<Rightarrow> string \<Rightarrow> bool" where
  "is_substring key [] = (key = [])"
| "is_substring key (c # cs) = (startswith (c # cs) key \<or> is_substring key cs)"

text \<open>
  \<^verbatim>\<open>key in item\<close>: a key of a dict, a substring of a str, an element of a list; any other
  value is not iterable and the test raises \<^verbatim>\<open>TypeError\<close>.
\<close>

fun contains :: "string \<Rightarrow> json \<Rightarrow> exn + bool" where
  "contains key (JObj kvs) = Inr (key \<in> set (map fst kvs))"
| "contains key (JStr s) = Inr (is_substring key s)"
| "contains key (JArr xs) = Inr (JStr key \<in> set xs)"
| "contains key JNull = Inl TypeError"
| "contains key (JBool b) = Inl TypeError"
| "contains key (JNum n) = Inl TypeError"

text \<open>\<^verbatim>\<open>item[key]\<close> with a string key: only a dict has one.\<close>

fun subscript :: "json \<Rightarrow> string \<Rightarrow> exn + json" where
  "subscript (JObj kvs) key = (case map_of kvs key of None \<Rightarrow> Inl KeyError | Some v \<Rightarrow> Inr v)"
| "subscript JNull key = Inl TypeError"
| "subscript (JBool b) key = Inl TypeError"
| "subscript (JNum n) key = Inl TypeError"
| "subscript (JStr s) key = Inl TypeError"
| "subscript (JArr xs) key = Inl TypeError"

text \<open>
  \<^verbatim>\<open>s.replace(old, new)\<close>: the occurrences of \<open>old\<close> from the left, not overlapping; with
  an empty \<open>old\<close>, \<open>new\<close> goes before every character and at the end.
\<close>

function replace :: "string \<Rightarrow> string \<Rightarrow> string \<Rightarrow> string" where
  "replace [] old new = (if old = [] then new else [])"
| "replace (c # cs) old new =
     (if old = [] then new @ c # replace cs old new
      else if startswith (c # cs) old then new @ replace (drop (length old) (c # cs)) old new
      else c # replace cs old new)"
  by pat_completeness auto
termination
  by (relation "measure (\<lambda>(s, old, new). length s)") (auto simp: Suc_le_eq)

text \<open>\<^verbatim>\<open>ticker_str.replace(".", "_")\<close>: only a \<^verbatim>\<open>str\<close> has the method.\<close>

fun replace_method :: "json \<Rightarrow> string \<Rightarrow> string \<Rightarrow> exn + string" where
  "replace_method (JStr s) old new = Inr (replace s old new)"
| "replace_method JNull old new = Inl AttributeError"
| "replace_method (JBool b) old new = Inl AttributeError"
| "replace_method (JNum n) old new = Inl AttributeError"
| "replace_method (JArr xs) old new = Inl AttributeError"
| "replace_method (JObj kvs) old new = Inl AttributeError"

text \<open>A value inside an f-string: a \<^verbatim>\<open>str\<close> is itself, another value is its \<^verbatim>\<open>str()\<close>.\<close>

fun format :: "world \<Rightarrow> json \<Rightarrow> string" where
  "format env (JStr s) = s"
| "format env v = str_of env v"

section \<open>The configuration loader\<close>

definition required_keys :: "string list" where
  "required_keys = [''ticker'', ''start_date'', ''end_date'']"

text \<open>\<^verbatim>\<open>all(key in item for key in keys)\<close>: stops at the first key that is absent.\<close>

fun all_in :: "string list \<Rightarrow> json \<Rightarrow> exn + bool" where
  "all_in [] item = Inr True"
| "all_in (key # keys) item =
     (case contains key item of
        Inl e \<Rightarrow> Inl e
      | Inr present \<Rightarrow> if present then all_in keys item else Inr False)"

text \<open>The loop of lines 47 to 49: the first item that fails the test raises \<^verbatim>\<open>ValueError\<close>.\<close>

fun validate :: "json list \<Rightarrow> exn + unit" where
  "validate [] = Inr ()"
| "validate (item # rest) =
     (case all_in required_keys item of
        Inl e \<Rightarrow> Inl e
      | Inr ok \<Rightarrow> if ok then validate rest else Inl ValueError)"

text \<open>\<^verbatim>\<open>isinstance(config_data, list)\<close>, with the list when it is one.\<close>

fun as_list :: "json \<Rightarrow> json list option" where
  "as_list (JArr items) = Some items"
| "as_list v = None"

text \<open>
  The three \<^verbatim>\<open>except\<close> clauses of \<open>load_config\<close>, in their order: each logs an error and
  calls \<^verbatim>\<open>sys.exit(1)\<close>. \<^verbatim>\<open>JSONDecodeError\<close> and \<^verbatim>\<open>UnicodeDecodeError\<close> are subclasses of
  \<^verbatim>\<open>ValueError\<close>.
\<close>

definition config_failure :: "string \<Rightarrow> exn \<Rightarrow> event list \<times> (nat + json list)" where
  "config_failure config_path e =
     (if e = JSONDecodeError then ([Log ERROR (JsonDecodeFailed config_path)], Inl 1)
      else if e = ValueError \<or> e = UnicodeDecodeError
        then ([Log ERROR (InvalidConfiguration e)], Inl 1)
      else ([Log ERROR (UnexpectedConfigError e)], Inl 1))"

text \<open>\<open>Inl n\<close> is \<^verbatim>\<open>sys.exit(n)\<close>; \<open>Inr requests\<close> is the list returned.\<close>

definition load_config :: "world \<Rightarrow> string \<Rightarrow> event list \<times> (nat + json list)" where
  "load_config env config_path =
     (case read_config env config_path of
        Missing \<Rightarrow> ([Log ERROR (ConfigNotFound config_path)], Inl 1)
      | ReadRaises e \<Rightarrow> config_failure config_path e
      | Parsed config_data \<Rightarrow>
          (case as_list config_data of
             None \<Rightarrow> config_failure config_path ValueError
           | Some items \<Rightarrow>
               (case validate items of
                  Inl e \<Rightarrow> config_failure config_path e
                | Inr u \<Rightarrow> ([Log INFO (LoadedRequests (length items) config_path)], Inr items))))"

section \<open>The worker\<close>

text \<open>
  Steps 4 and 5 of the worker (lines 91 to 99), reached with a table that has rows: the
  name is derived, the path is joined, the table is written. They stand inside the
  \<^verbatim>\<open>try\<close>, so what they raise is logged by line 103, whatever exception it is.
\<close>

definition save_frame :: "world \<Rightarrow> nat \<Rightarrow> json \<Rightarrow> json \<Rightarrow> json \<Rightarrow> path \<Rightarrow> row list \<Rightarrow> event list" where
  "save_frame env k ticker_str start end_date output_dir history_df =
     (case replace_method ticker_str ''.'' ''_'' of
        Inl e \<Rightarrow> [Log ERROR (FetchOrSaveFailed ticker_str e)]
      | Inr safe_ticker_str \<Rightarrow>
          (let filename = safe_ticker_str @ ''_'' @ format env start @ ''_to_''
                 @ format env end_date @ ''.csv'';
               output_path = Slash output_dir filename
           in (case to_csv env k output_path of
                 WriteReturns \<Rightarrow>
                   [WroteCsv output_path history_df, Log INFO (SavedTo output_path)]
               | WriteRaises e left \<Rightarrow>
                   (if left then [LeftFile output_path] else [])
                   @ [Log ERROR (FetchOrSaveFailed ticker_str e)])))"

text \<open>
  Lines 72 to 74 stand before the \<^verbatim>\<open>try\<close>: an exception there leaves the function. All that
  follows is inside it, and \<^verbatim>\<open>except Exception\<close> logs whatever is raised.
\<close>

definition fetch_and_save_data :: "world \<Rightarrow> nat \<Rightarrow> json \<Rightarrow> path \<Rightarrow> event list \<times> status" where
  "fetch_and_save_data env k ticker_request output_dir =
     (case subscript ticker_request ''ticker'' of
        Inl e \<Rightarrow> ([], Raised e)
      | Inr ticker_str \<Rightarrow>
     (case subscript ticker_request ''start_date'' of
        Inl e \<Rightarrow> ([], Raised e)
      | Inr start \<Rightarrow>
     (case subscript ticker_request ''end_date'' of
        Inl e \<Rightarrow> ([], Raised e)
      | Inr end_date \<Rightarrow>
          (Log INFO (Fetching ticker_str start end_date) #
             (case history env k ticker_str start end_date of
                Raises e \<Rightarrow> [Log ERROR (FetchOrSaveFailed ticker_str e)]
              | Frame history_df \<Rightarrow>
                  if history_df = [] then [Log WARNING (NoDataFound ticker_str)]
                  else save_frame env k ticker_str start end_date output_dir history_df),
           Returned))))"

section \<open>The driver\<close>

text \<open>The loop of lines 137 and 138; \<open>k\<close> counts the requests already handled.\<close>

fun process_requests :: "world \<Rightarrow> nat \<Rightarrow> json list \<Rightarrow> event list \<times> status" where
  "process_requests env k [] = ([], Returned)"
| "process_requests env k (request # rest) =
     (case fetch_and_save_data env k request OUTPUT_DIR of
        (evs, Raised e) \<Rightarrow> (evs, Raised e)
      | (evs, Returned) \<Rightarrow>
          (case process_requests env (Suc k) rest of
             (evs', st) \<Rightarrow> (evs @ evs', st)))"

text \<open>The value of \<^verbatim>\<open>--config\<close>: the option's argument, or the default.\<close>

fun config_arg :: "string option \<Rightarrow> string" where
  "config_arg None = ''config.json''"
| "config_arg (Some p) = p"

definition main :: "world \<Rightarrow> string option \<Rightarrow> event list \<times> outcome" where
  "main env arg =
     (case load_config env (config_arg arg) of
        (loaded, Inl n) \<Rightarrow> (loaded, Exit n)
      | (loaded, Inr requests) \<Rightarrow>
          if \<not> mkdir_ok env
          then (loaded @ [Log ERROR (OutputDirFailed OUTPUT_DIR)], Exit 1)
          else if requests = []
          then (loaded @ [Mkdir OUTPUT_DIR, Log INFO (OutputDirSet OUTPUT_DIR),
                          Log WARNING NoRequests], Exit 0)
          else
            (case process_requests env 0 requests of
               (evs, Raised e) \<Rightarrow>
                 (loaded @ [Mkdir OUTPUT_DIR, Log INFO (OutputDirSet OUTPUT_DIR)] @ evs,
                  Uncaught e)
             | (evs, Returned) \<Rightarrow>
                 (loaded @ [Mkdir OUTPUT_DIR, Log INFO (OutputDirSet OUTPUT_DIR)] @ evs
                    @ [Log INFO AllComplete], Exit 0)))"

section \<open>Reading a run\<close>

text \<open>The files a run has written, oldest first.\<close>

fun files_written :: "event list \<Rightarrow> path list" where
  "files_written [] = []"
| "files_written (WroteCsv p rows # evs) = p # files_written evs"
| "files_written (e # evs) = files_written evs"

fun dirs_made :: "event list \<Rightarrow> path list" where
  "dirs_made [] = []"
| "dirs_made (Mkdir p # evs) = p # dirs_made evs"
| "dirs_made (e # evs) = dirs_made evs"

fun logged :: "level \<Rightarrow> event list \<Rightarrow> message list" where
  "logged l [] = []"
| "logged l (Log l' m # evs) = (if l' = l then m # logged l evs else logged l evs)"
| "logged l (e # evs) = logged l evs"

section \<open>The notions of the specification\<close>

text \<open>
  A FetchRequest of the specification: an object that has the three fields. (The
  specification also asks for values that are not empty; the loader does not look at
  the values, see \<open>validate\<close>.)
\<close>

fun is_request :: "json \<Rightarrow> bool" where
  "is_request (JObj kvs) =
     (''ticker'' \<in> set (map fst kvs) \<and> ''start_date'' \<in> set (map fst kvs)
      \<and> ''end_date'' \<in> set (map fst kvs))"
| "is_request v = False"

text \<open>
  The file name as the specification writes it,
  \<^verbatim>\<open>{sanitized_ticker}_{start_date}_to_{end_date}.csv\<close>, with every \<^verbatim>\<open>.\<close> of the ticker
  turned into \<^verbatim>\<open>_\<close>.
\<close>

definition dot_to_underscore :: "char \<Rightarrow> char" where
  "dot_to_underscore c = (if c = CHR ''.'' then CHR ''_'' else c)"

definition spec_filename :: "string \<Rightarrow> string \<Rightarrow> string \<Rightarrow> string" where
  "spec_filename ticker start_date end_date =
     map dot_to_underscore ticker @ ''_'' @ start_date @ ''_to_'' @ end_date @ ''.csv''"

text \<open>
  The characters no file name can hold on a POSIX system: the separator and the null
  character. (Other systems refuse more.)
\<close>

definition invalid_in_filename :: "char \<Rightarrow> bool" where
  "invalid_in_filename c = (c = CHR ''/'' \<or> c = CHR 0x00)"

section \<open>Sample inputs\<close>

definition request :: "string \<Rightarrow> string \<Rightarrow> string \<Rightarrow> json" where
  "request ticker start_date end_date =
     JObj [(''ticker'', JStr ticker), (''start_date'', JStr start_date),
           (''end_date'', JStr end_date)]"

definition brk_request :: json where
  "brk_request = request ''BRK.B'' ''2020-01-01'' ''2020-12-31''"

definition unknown_request :: json where
  "unknown_request = request ''NOSUCH'' ''2020-01-01'' ''2020-12-31''"

definition slash_request :: json where
  "slash_request = request ''BRK/B'' ''2020-01-01'' ''2020-12-31''"

definition absolute_request :: json where
  "absolute_request = request ''/tmp/x'' ''2020-01-01'' ''2020-12-31''"

definition slash_dates_request :: json where
  "slash_dates_request = request ''BRK.B'' ''2020/01/01'' ''2020/12/31''"

definition blank_request :: json where
  "blank_request = request [] [] []"

definition future_request :: json where
  "future_request = request ''BRK.B'' ''2031-01-01'' ''2031-12-31''"

text \<open>An item that is a string, not an object.\<close>

definition text_item :: json where
  "text_item = JStr ''ticker start_date end_date''"

definition sample_rows :: "row list" where
  "sample_rows = [[''2020-01-02'', ''226.14'', ''228.39'', ''225.81'', ''228.39'', ''3764000'']]"

text \<open>A provider that knows every ticker but \<^verbatim>\<open>NOSUCH\<close>, and has nothing after 2030.\<close>

definition sample_history :: "nat \<Rightarrow> json \<Rightarrow> json \<Rightarrow> json \<Rightarrow> fetch_result" where
  "sample_history k ticker start_date end_date =
     (if ticker = JStr ''NOSUCH'' then Raises ProviderError
      else if start_date = JStr ''2031-01-01'' then Frame []
      else Frame sample_rows)"

definition config_holding :: "json \<Rightarrow> string \<Rightarrow> config_file" where
  "config_holding v p = (if p = ''config.json'' then Parsed v else Missing)"

definition writable :: "nat \<Rightarrow> path \<Rightarrow> write_result" where
  "writable k p = WriteReturns"

definition read_only :: "nat \<Rightarrow> path \<Rightarrow> write_result" where
  "read_only k p = WriteRaises OSError False"

definition disk_full :: "nat \<Rightarrow> path \<Rightarrow> write_result" where
  "disk_full k p = WriteRaises OSError True"

definition sample_str :: "json \<Rightarrow> string" where
  "sample_str v = ''None''"

text \<open>
  A run in a directory that can be written, one on a disk that fills up while the file
  is written, and one in a directory that cannot be written.
\<close>

definition sample_world :: "json \<Rightarrow> world" where
  "sample_world v =
     \<lparr>read_config = config_holding v, mkdir_ok = True, history = sample_history,
      to_csv = writable, str_of = sample_str\<rparr>"

definition full_disk_world :: "json \<Rightarrow> world" where
  "full_disk_world v =
     \<lparr>read_config = config_holding v, mkdir_ok = True, history = sample_history,
      to_csv = disk_full, str_of = sample_str\<rparr>"

definition read_only_world :: "json \<Rightarrow> world" where
  "read_only_world v =
     \<lparr>read_config = config_holding v, mkdir_ok = False, history = sample_history,
      to_csv = read_only, str_of = sample_str\<rparr>"

section \<open>Helper lemmas\<close>

lemma replace_char: "replace s [a] [b] = map (\<lambda>c. if c = a then b else c) s"
  by (induction s) simp_all

lemma replace_dot: "replace s ''.'' ''_'' = map dot_to_underscore s"
  by (simp add: replace_char dot_to_underscore_def)

lemma subscript_present:
  "key \<in> set (map fst kvs) \<Longrightarrow> \<exists>v. subscript (JObj kvs) key = Inr v"
  by (cases "map_of kvs key") (auto simp: map_of_eq_None_iff)

lemma is_request_fields:
  assumes "is_request r"
  obtains t s d where "subscript r ''ticker'' = Inr t" "subscript r ''start_date'' = Inr s"
    "subscript r ''end_date'' = Inr d"
proof (cases r)
  case (JObj kvs)
  with assms show ?thesis
    using subscript_present[of "''ticker''" kvs] subscript_present[of "''start_date''" kvs]
      subscript_present[of "''end_date''" kvs] that
    by auto
qed (use assms in simp_all)

lemma worker_returns:
  assumes "is_request r"
  shows "snd (fetch_and_save_data env k r out) = Returned"
proof -
  from assms obtain t s d where "subscript r ''ticker'' = Inr t" "subscript r ''start_date'' = Inr s"
    "subscript r ''end_date'' = Inr d" by (rule is_request_fields)
  then show ?thesis by (simp add: fetch_and_save_data_def)
qed

lemma process_all:
  "list_all is_request requests \<Longrightarrow>
   process_requests env k requests =
     (concat (map2 (\<lambda>j r. fst (fetch_and_save_data env j r OUTPUT_DIR)) [k..<k + length requests] requests), Returned)"
proof (induction requests arbitrary: k)
  case Nil
  then show ?case by simp
next
  case (Cons r rs)
  then have r: "snd (fetch_and_save_data env k r OUTPUT_DIR) = Returned" and rs: "list_all is_request rs"
    by (simp_all add: worker_returns)
  have "[k..<k + length (r # rs)] = k # [Suc k..<k + length (r # rs)]"
    by (rule upt_conv_Cons) simp
  then have upt: "[k..<k + length (r # rs)] = k # [Suc k..<Suc k + length rs]"
    by simp
  from r obtain evs where w: "fetch_and_save_data env k r OUTPUT_DIR = (evs, Returned)"
    by (cases "fetch_and_save_data env k r OUTPUT_DIR") simp
  show ?case
    unfolding upt using Cons.IH[OF rs, of "Suc k"] w by simp
qed


lemma worker_raises:
  assumes "subscript r ''ticker'' = Inr t" "subscript r ''start_date'' = Inr s"
    "subscript r ''end_date'' = Inr d" "history env k t s d = Raises e"
  shows "fetch_and_save_data env k r out =
    ([Log INFO (Fetching t s d), Log ERROR (FetchOrSaveFailed t e)], Returned)"
  using assms by (simp add: fetch_and_save_data_def)

lemma worker_empty:
  assumes "subscript r ''ticker'' = Inr t" "subscript r ''start_date'' = Inr s"
    "subscript r ''end_date'' = Inr d" "history env k t s d = Frame []"
  shows "fetch_and_save_data env k r out =
    ([Log INFO (Fetching t s d), Log WARNING (NoDataFound t)], Returned)"
  using assms by (simp add: fetch_and_save_data_def)

lemma save_frame_ok:
  assumes "to_csv_ok env k (Slash out (spec_filename t (format env s) (format env d)))"
  shows "save_frame env k (JStr t) s d out rows =
    [WroteCsv (Slash out (spec_filename t (format env s) (format env d))) rows,
     Log INFO (SavedTo (Slash out (spec_filename t (format env s) (format env d))))]"
  using assms by (simp add: save_frame_def spec_filename_def replace_dot Let_def to_csv_ok_def)

lemma save_frame_raises:
  assumes "to_csv env k (Slash out (spec_filename t (format env s) (format env d))) =
    WriteRaises e left"
  shows "save_frame env k (JStr t) s d out rows =
    (if left then [LeftFile (Slash out (spec_filename t (format env s) (format env d)))] else [])
    @ [Log ERROR (FetchOrSaveFailed (JStr t) e)]"
  using assms by (simp add: save_frame_def spec_filename_def replace_dot Let_def)

lemma save_frame_no_method:
  assumes "\<forall>t. v \<noteq> JStr t"
  shows "save_frame env k v s d out rows = [Log ERROR (FetchOrSaveFailed v AttributeError)]"
  using assms by (cases v) (simp_all add: save_frame_def)

lemma worker_rows:
  assumes "subscript r ''ticker'' = Inr t" "subscript r ''start_date'' = Inr s"
    "subscript r ''end_date'' = Inr d" "history env k t s d = Frame rows" "rows \<noteq> []"
  shows "fetch_and_save_data env k r out =
    (Log INFO (Fetching t s d) # save_frame env k t s d out rows, Returned)"
  using assms by (simp add: fetch_and_save_data_def)

lemma all_in_request: "is_request r \<Longrightarrow> all_in required_keys r = Inr True"
  by (cases r) (simp_all add: required_keys_def)

lemma all_in_object: "all_in required_keys (JObj kvs) = Inr True \<Longrightarrow> is_request (JObj kvs)"
  by (simp add: required_keys_def split: if_splits)

lemma validate_requests: "list_all is_request items \<Longrightarrow> validate items = Inr ()"
  by (induction items) (simp_all add: all_in_request)

lemma validate_sound:
  "validate items = Inr u \<Longrightarrow> r \<in> set items \<Longrightarrow> all_in required_keys r = Inr True"
  by (induction items) (auto split: sum.splits if_splits)

lemma validate_rejects:
  "r \<in> set items \<Longrightarrow> all_in required_keys r \<noteq> Inr True \<Longrightarrow> \<exists>e. validate items = Inl e"
  by (induction items) (auto split: sum.splits if_splits)

lemma config_failure_exits: "snd (config_failure config_path e) = Inl 1"
  by (simp add: config_failure_def)

lemma load_config_returns:
  assumes "load_config env config_path = (evs, Inr requests)"
  shows "read_config env config_path = Parsed (JArr requests) \<and> validate requests = Inr ()
    \<and> evs = [Log INFO (LoadedRequests (length requests) config_path)]"
proof (cases "read_config env config_path")
  case Missing
  with assms show ?thesis by (simp add: load_config_def)
next
  case (ReadRaises e)
  with assms config_failure_exits[of config_path e] show ?thesis
    by (simp add: load_config_def)
next
  case (Parsed v)
  show ?thesis
  proof (cases "as_list v")
    case None
    with Parsed assms config_failure_exits[of config_path ValueError] show ?thesis
      by (simp add: load_config_def)
  next
    case (Some items)
    then have v: "v = JArr items" by (cases v) simp_all
    show ?thesis
    proof (cases "validate items")
      case (Inl e)
      with Parsed Some assms config_failure_exits[of config_path e] show ?thesis
        by (simp add: load_config_def)
    next
      case (Inr u)
      with Parsed Some assms v show ?thesis
        by (auto simp: load_config_def)
    qed
  qed
qed

lemma malformed_config_is_refused:
  assumes "read_config env config_path = Missing
    \<or> (\<exists>e. read_config env config_path = ReadRaises e)
    \<or> (\<exists>v. read_config env config_path = Parsed v \<and> as_list v = None)
    \<or> (\<exists>items kvs. read_config env config_path = Parsed (JArr items)
          \<and> JObj kvs \<in> set items \<and> \<not> is_request (JObj kvs))"
  shows "snd (load_config env config_path) = Inl 1"
proof -
  consider "read_config env config_path = Missing"
    | e where "read_config env config_path = ReadRaises e"
    | v where "read_config env config_path = Parsed v" "as_list v = None"
    | items kvs where "read_config env config_path = Parsed (JArr items)"
        "JObj kvs \<in> set items" "\<not> is_request (JObj kvs)"
    using assms by blast
  then show ?thesis
  proof cases
    case 1
    then show ?thesis by (simp add: load_config_def)
  next
    case 2
    then show ?thesis by (simp add: load_config_def config_failure_exits)
  next
    case 3
    then show ?thesis by (simp add: load_config_def config_failure_exits)
  next
    case 4
    from 4(3) have "all_in required_keys (JObj kvs) \<noteq> Inr True"
      using all_in_object by blast
    with 4(2) obtain e where "validate items = Inl e"
      using validate_rejects by blast
    with 4(1) show ?thesis by (simp add: load_config_def config_failure_exits)
  qed
qed

lemma worker_makes_no_dir: "dirs_made (fst (fetch_and_save_data env k r out)) = []"
  by (simp add: fetch_and_save_data_def save_frame_def Let_def
      split: sum.splits fetch_result.splits write_result.splits)

lemma dirs_made_append: "dirs_made (xs @ ys) = dirs_made xs @ dirs_made ys"
  by (induction xs rule: dirs_made.induct) simp_all

lemma process_makes_no_dir: "dirs_made (fst (process_requests env k requests)) = []"
proof (induction requests arbitrary: k)
  case Nil
  then show ?case by simp
next
  case (Cons r rs)
  obtain evs st where w: "fetch_and_save_data env k r OUTPUT_DIR = (evs, st)"
    by (cases "fetch_and_save_data env k r OUTPUT_DIR")
  with worker_makes_no_dir[of env k r OUTPUT_DIR] have e: "dirs_made evs = []"
    by simp
  obtain evs' st' where p: "process_requests env (Suc k) rs = (evs', st')"
    by (cases "process_requests env (Suc k) rs")
  with Cons.IH[of "Suc k"] have "dirs_made evs' = []"
    by simp
  with w p e show ?case
    by (cases st) (simp_all add: dirs_made_append)
qed


lemma split_on_absent: "sep \<notin> set s \<Longrightarrow> split_on sep s = [s]"
  by (induction s) auto

lemma root_of_no_slash: "CHR ''/'' \<notin> set s \<Longrightarrow> root_of s = []"
  by (cases s rule: root_of.cases) auto

lemma Slash_plain_name:
  assumes "CHR ''/'' \<notin> set name" and "name \<noteq> []" and "name \<noteq> ''.''"
  shows "Slash (PosixPath root parts) name = PosixPath root (parts @ [name])"
  using assms by (simp add: root_of_no_slash components_def split_on_absent)

lemma OUTPUT_DIR_parts: "OUTPUT_DIR = PosixPath [] [''historical_data'']"
  by (simp add: OUTPUT_DIR_def Path_def components_def)

lemma dot_to_underscore_no_slash:
  "CHR ''/'' \<notin> set t \<Longrightarrow> CHR ''/'' \<notin> set (map dot_to_underscore t)"
  by (auto simp: dot_to_underscore_def)

lemma spec_filename_long: "1 < length (spec_filename t s d)"
  by (simp add: spec_filename_def)

lemma spec_filename_no_slash:
  assumes "CHR ''/'' \<notin> set t" and "CHR ''/'' \<notin> set s" and "CHR ''/'' \<notin> set d"
  shows "CHR ''/'' \<notin> set (spec_filename t s d)"
  using assms dot_to_underscore_no_slash[of t] by (simp add: spec_filename_def)

lemma output_path_plain:
  assumes "CHR ''/'' \<notin> set t" and "CHR ''/'' \<notin> set s" and "CHR ''/'' \<notin> set d"
  shows "Slash OUTPUT_DIR (spec_filename t s d) =
    PosixPath [] [''historical_data'', spec_filename t s d]"
proof -
  have "spec_filename t s d \<noteq> []" and "spec_filename t s d \<noteq> ''.''"
    using spec_filename_long[of t s d] by auto
  with spec_filename_no_slash[OF assms]
  have "Slash (PosixPath [] [''historical_data'']) (spec_filename t s d) =
      PosixPath [] ([''historical_data''] @ [spec_filename t s d])"
    by (rule Slash_plain_name)
  then show ?thesis
    by (simp only: OUTPUT_DIR_parts append.simps)
qed
section \<open>The claims\<close>

text \<open>
  C1. A fetch that raises does not stop the batch. For a batch of requests (objects with
  the three fields), the loop hands every request to the worker, in order, and returns;
  the run is the workers' runs one after the other. A request whose fetch raises gets
  two log lines from its worker, the second an error, and no file; the worker returns.
  In a batch of two whose first fetch raises and whose second request succeeds with
  rows (fetched and saved), the files written are exactly the one of the second request.
\<close>

theorem failing_fetch_is_skipped:
  assumes "list_all is_request requests"
  shows "process_requests env k requests =
      (concat (map2 (\<lambda>j r. fst (fetch_and_save_data env j r OUTPUT_DIR))
         [k..<k + length requests] requests), Returned)
    \<and> (\<forall>i t s d e. i < length requests
          \<and> subscript (requests ! i) ''ticker'' = Inr t
          \<and> subscript (requests ! i) ''start_date'' = Inr s
          \<and> subscript (requests ! i) ''end_date'' = Inr d
          \<and> history env (k + i) t s d = Raises e \<longrightarrow>
          fetch_and_save_data env (k + i) (requests ! i) OUTPUT_DIR =
            ([Log INFO (Fetching t s d), Log ERROR (FetchOrSaveFailed t e)], Returned))
    \<and> (\<forall>r1 r2 t1 s1 d1 e t s d rows. requests = [r1, r2]
          \<and> subscript r1 ''ticker'' = Inr t1 \<and> subscript r1 ''start_date'' = Inr s1
          \<and> subscript r1 ''end_date'' = Inr d1
          \<and> history env k t1 s1 d1 = Raises e
          \<and> subscript r2 ''ticker'' = Inr (JStr t) \<and> subscript r2 ''start_date'' = Inr s
          \<and> subscript r2 ''end_date'' = Inr d
          \<and> history env (Suc k) (JStr t) s d = Frame rows \<and> rows \<noteq> []
          \<and> to_csv_ok env (Suc k)
               (Slash OUTPUT_DIR (spec_filename t (format env s) (format env d))) \<longrightarrow>
          files_written (fst (process_requests env k requests)) =
            [Slash OUTPUT_DIR (spec_filename t (format env s) (format env d))])"
proof (intro conjI allI impI)
  show "process_requests env k requests =
      (concat (map2 (\<lambda>j r. fst (fetch_and_save_data env j r OUTPUT_DIR))
         [k..<k + length requests] requests), Returned)"
    using assms by (rule process_all)
next
  fix i t s d e
  assume "i < length requests
          \<and> subscript (requests ! i) ''ticker'' = Inr t
          \<and> subscript (requests ! i) ''start_date'' = Inr s
          \<and> subscript (requests ! i) ''end_date'' = Inr d
          \<and> history env (k + i) t s d = Raises e"
  then show "fetch_and_save_data env (k + i) (requests ! i) OUTPUT_DIR =
            ([Log INFO (Fetching t s d), Log ERROR (FetchOrSaveFailed t e)], Returned)"
    by (simp add: worker_raises)
next
  fix r1 r2 t1 s1 d1 e t s d rows
  let ?p = "Slash OUTPUT_DIR (spec_filename t (format env s) (format env d))"
  assume h: "requests = [r1, r2]
          \<and> subscript r1 ''ticker'' = Inr t1 \<and> subscript r1 ''start_date'' = Inr s1
          \<and> subscript r1 ''end_date'' = Inr d1
          \<and> history env k t1 s1 d1 = Raises e
          \<and> subscript r2 ''ticker'' = Inr (JStr t) \<and> subscript r2 ''start_date'' = Inr s
          \<and> subscript r2 ''end_date'' = Inr d
          \<and> history env (Suc k) (JStr t) s d = Frame rows \<and> rows \<noteq> []
          \<and> to_csv_ok env (Suc k) ?p"
  then have w1: "fetch_and_save_data env k r1 OUTPUT_DIR =
      ([Log INFO (Fetching t1 s1 d1), Log ERROR (FetchOrSaveFailed t1 e)], Returned)"
    by (simp add: worker_raises)
  from h have w2: "fetch_and_save_data env (Suc k) r2 OUTPUT_DIR =
      ([Log INFO (Fetching (JStr t) s d), WroteCsv ?p rows, Log INFO (SavedTo ?p)], Returned)"
    by (simp add: worker_rows save_frame_ok)
  from h w1 w2 show "files_written (fst (process_requests env k requests)) = [?p]"
    by simp
qed

theorem failing_fetch_is_skipped_witness:
  "list_all is_request [unknown_request, brk_request]
   \<and> subscript unknown_request ''ticker'' = Inr (JStr ''NOSUCH'')
   \<and> history (sample_world JNull) 0 (JStr ''NOSUCH'') (JStr ''2020-01-01'') (JStr ''2020-12-31'') =
       Raises ProviderError
   \<and> subscript brk_request ''ticker'' = Inr (JStr ''BRK.B'')
   \<and> history (sample_world JNull) 1 (JStr ''BRK.B'') (JStr ''2020-01-01'') (JStr ''2020-12-31'') =
       Frame sample_rows
   \<and> sample_rows \<noteq> []
   \<and> to_csv_ok (sample_world JNull) 1 (Slash OUTPUT_DIR ''BRK_B_2020-01-01_to_2020-12-31.csv'')
   \<and> fetch_and_save_data (sample_world JNull) 0 unknown_request OUTPUT_DIR =
       ([Log INFO (Fetching (JStr ''NOSUCH'') (JStr ''2020-01-01'') (JStr ''2020-12-31'')),
         Log ERROR (FetchOrSaveFailed (JStr ''NOSUCH'') ProviderError)], Returned)
   \<and> snd (process_requests (sample_world JNull) 0 [unknown_request, brk_request]) = Returned
   \<and> files_written (fst (process_requests (sample_world JNull) 0 [unknown_request, brk_request])) =
       [Slash OUTPUT_DIR ''BRK_B_2020-01-01_to_2020-12-31.csv'']"
proof -
  let ?w = "sample_world JNull"
  have wf: "list_all is_request [unknown_request, brk_request]"
    by (simp add: unknown_request_def brk_request_def request_def)
  have f1: "subscript unknown_request ''ticker'' = Inr (JStr ''NOSUCH'')"
    "subscript unknown_request ''start_date'' = Inr (JStr ''2020-01-01'')"
    "subscript unknown_request ''end_date'' = Inr (JStr ''2020-12-31'')"
    by (simp_all add: unknown_request_def request_def)
  have h1: "history ?w 0 (JStr ''NOSUCH'') (JStr ''2020-01-01'') (JStr ''2020-12-31'') =
      Raises ProviderError"
    by (simp add: sample_world_def sample_history_def)
  have f2: "subscript brk_request ''ticker'' = Inr (JStr ''BRK.B'')"
    "subscript brk_request ''start_date'' = Inr (JStr ''2020-01-01'')"
    "subscript brk_request ''end_date'' = Inr (JStr ''2020-12-31'')"
    by (simp_all add: brk_request_def request_def)
  have h2: "history ?w 1 (JStr ''BRK.B'') (JStr ''2020-01-01'') (JStr ''2020-12-31'') =
      Frame sample_rows"
    by (simp add: sample_world_def sample_history_def)
  have rows: "sample_rows \<noteq> []"
    by (simp add: sample_rows_def)
  have name: "spec_filename ''BRK.B'' ''2020-01-01'' ''2020-12-31'' =
      ''BRK_B_2020-01-01_to_2020-12-31.csv''"
    by (simp add: spec_filename_def dot_to_underscore_def)
  have ok: "to_csv_ok ?w 1 (Slash OUTPUT_DIR ''BRK_B_2020-01-01_to_2020-12-31.csv'')"
    by (simp add: to_csv_ok_def sample_world_def writable_def)
  note th = failing_fetch_is_skipped[OF wf, of ?w 0]
  have r: "snd (process_requests ?w 0 [unknown_request, brk_request]) = Returned"
    by (simp only: th[THEN conjunct1] snd_conv)
  have w1: "fetch_and_save_data ?w 0 unknown_request OUTPUT_DIR =
       ([Log INFO (Fetching (JStr ''NOSUCH'') (JStr ''2020-01-01'') (JStr ''2020-12-31'')),
         Log ERROR (FetchOrSaveFailed (JStr ''NOSUCH'') ProviderError)], Returned)"
    using th[THEN conjunct2, THEN conjunct1, rule_format, of 0 "JStr ''NOSUCH''"
        "JStr ''2020-01-01''" "JStr ''2020-12-31''" ProviderError] f1 h1
    by simp
  have files: "files_written (fst (process_requests ?w 0 [unknown_request, brk_request])) =
       [Slash OUTPUT_DIR ''BRK_B_2020-01-01_to_2020-12-31.csv'']"
    using th[THEN conjunct2, THEN conjunct2, rule_format, of unknown_request brk_request
        "JStr ''NOSUCH''" "JStr ''2020-01-01''" "JStr ''2020-12-31''" ProviderError
        "''BRK.B''" "JStr ''2020-01-01''" "JStr ''2020-12-31''" sample_rows]
      f1 h1 f2 h2 rows ok name
    by simp
  from wf f1(1) h1 f2(1) h2 rows ok w1 r files show ?thesis by simp
qed

text \<open>
  C2. A configuration that is missing, cannot be read or parsed, is not a list, or holds
  an object without one of the three fields ends the process with status 1 and returns
  nothing (\<open>malformed_config_is_refused\<close>). An item that is not an object is another
  matter: the test \<^verbatim>\<open>key in item\<close> on a string looks for a substring, so the list
  \<^verbatim>\<open>["ticker start_date end_date"]\<close> is loaded and returned, its only item a string with
  no field at all. The driver then makes the output directory and stops on the
  \<^verbatim>\<open>TypeError\<close> of \<^verbatim>\<open>ticker_request["ticker"]\<close>, which stands before the \<^verbatim>\<open>try\<close>.
  With a good request before the string, the good request's file is written first.
\<close>

theorem string_item_is_loaded:
  "load_config (sample_world (JArr [text_item])) ''config.json'' =
     ([Log INFO (LoadedRequests 1 ''config.json'')], Inr [text_item])
   \<and> is_request text_item = False
   \<and> main (sample_world (JArr [text_item])) None =
     ([Log INFO (LoadedRequests 1 ''config.json''), Mkdir OUTPUT_DIR,
       Log INFO (OutputDirSet OUTPUT_DIR)], Uncaught TypeError)
   \<and> snd (load_config (sample_world (JArr [brk_request, text_item])) ''config.json'') =
     Inr [brk_request, text_item]
   \<and> files_written (fst (main (sample_world (JArr [brk_request, text_item])) None)) =
     [Slash OUTPUT_DIR ''BRK_B_2020-01-01_to_2020-12-31.csv'']
   \<and> snd (main (sample_world (JArr [brk_request, text_item])) None) = Uncaught TypeError"
  by (simp add: main_def load_config_def sample_world_def config_holding_def text_item_def
      required_keys_def fetch_and_save_data_def save_frame_def Let_def brk_request_def
      request_def sample_history_def sample_rows_def writable_def)

text \<open>
  C3. A list whose every item is an object with the three fields is returned as it is:
  the same items in the same order (so the same length, the same value under every
  field, and every item as many times as in the input).
\<close>

theorem valid_list_is_returned_as_it_is:
  assumes "read_config env config_path = Parsed (JArr items)"
    and "list_all is_request items"
  shows "load_config env config_path =
      ([Log INFO (LoadedRequests (length items) config_path)], Inr items)
    \<and> (\<forall>requests. snd (load_config env config_path) = Inr requests \<longrightarrow>
          length requests = length items
          \<and> (\<forall>i < length items. requests ! i = items ! i
                \<and> subscript (requests ! i) ''ticker'' = subscript (items ! i) ''ticker''
                \<and> subscript (requests ! i) ''start_date'' = subscript (items ! i) ''start_date''
                \<and> subscript (requests ! i) ''end_date'' = subscript (items ! i) ''end_date'')
          \<and> (\<forall>r. count_list requests r = count_list items r))"
proof -
  from assms have "load_config env config_path =
      ([Log INFO (LoadedRequests (length items) config_path)], Inr items)"
    by (simp add: load_config_def validate_requests)
  then show ?thesis by simp
qed

theorem valid_list_is_returned_as_it_is_witness:
  "read_config (sample_world (JArr [brk_request, unknown_request, brk_request])) ''config.json'' =
     Parsed (JArr [brk_request, unknown_request, brk_request])
   \<and> list_all is_request [brk_request, unknown_request, brk_request]
   \<and> load_config (sample_world (JArr [brk_request, unknown_request, brk_request])) ''config.json'' =
     ([Log INFO (LoadedRequests 3 ''config.json'')], Inr [brk_request, unknown_request, brk_request])"
proof -
  have a: "read_config (sample_world (JArr [brk_request, unknown_request, brk_request])) ''config.json'' =
     Parsed (JArr [brk_request, unknown_request, brk_request])"
    by (simp add: sample_world_def config_holding_def)
  have b: "list_all is_request [brk_request, unknown_request, brk_request]"
    by (simp add: unknown_request_def brk_request_def request_def)
  from valid_list_is_returned_as_it_is[OF a b, THEN conjunct1] a b show ?thesis
    by simp
qed

text \<open>
  C4, as stated: whenever the fetch returns at least one row, exactly one output file
  is created. The write stands inside the \<^verbatim>\<open>try\<close>, and line 103 logs "Failed to fetch or
  save": where \<^verbatim>\<open>to_csv\<close> raises (a directory that cannot be written), the fetch has
  returned a row, the worker logs the error and returns, and there is no file.
\<close>

theorem rows_fetched_but_no_file:
  "subscript brk_request ''ticker'' = Inr (JStr ''BRK.B'')
   \<and> subscript brk_request ''start_date'' = Inr (JStr ''2020-01-01'')
   \<and> subscript brk_request ''end_date'' = Inr (JStr ''2020-12-31'')
   \<and> history (read_only_world JNull) 0 (JStr ''BRK.B'') (JStr ''2020-01-01'')
        (JStr ''2020-12-31'') = Frame sample_rows
   \<and> length sample_rows = 1
   \<and> to_csv (read_only_world JNull) 0 (Slash OUTPUT_DIR ''BRK_B_2020-01-01_to_2020-12-31.csv'') =
       WriteRaises OSError False
   \<and> fetch_and_save_data (read_only_world JNull) 0 brk_request OUTPUT_DIR =
       ([Log INFO (Fetching (JStr ''BRK.B'') (JStr ''2020-01-01'') (JStr ''2020-12-31'')),
         Log ERROR (FetchOrSaveFailed (JStr ''BRK.B'') OSError)], Returned)
   \<and> files_written (fst (fetch_and_save_data (read_only_world JNull) 0 brk_request OUTPUT_DIR)) = []"
  by (simp add: fetch_and_save_data_def save_frame_def brk_request_def request_def
      read_only_world_def sample_history_def sample_rows_def read_only_def Let_def)

text \<open>
  C4, amended. For one request with the three fields: if the fetch returns no row, the
  worker logs the warning and returns with no file; if it returns at least one row, the
  ticker is a string and the write raises no error, the worker writes exactly one file,
  at the path made of the output directory and the name derived from the request. If
  the write raises, the worker logs the exception that was raised and returns, and
  removes nothing the write has left; if the ticker is not a string (so that it has no
  \<^verbatim>\<open>replace\<close>), the worker logs the \<^verbatim>\<open>AttributeError\<close> and returns, and no write is tried.
\<close>

theorem worker_on_one_request:
  assumes "subscript r ''ticker'' = Inr t"
    and "subscript r ''start_date'' = Inr s"
    and "subscript r ''end_date'' = Inr d"
  shows "(history env k t s d = Frame [] \<longrightarrow>
            fetch_and_save_data env k r out =
              ([Log INFO (Fetching t s d), Log WARNING (NoDataFound t)], Returned))
    \<and> (\<forall>rows tk. history env k t s d = Frame rows \<and> rows \<noteq> [] \<and> t = JStr tk
          \<and> to_csv_ok env k (Slash out (spec_filename tk (format env s) (format env d))) \<longrightarrow>
          fetch_and_save_data env k r out =
            ([Log INFO (Fetching t s d),
              WroteCsv (Slash out (spec_filename tk (format env s) (format env d))) rows,
              Log INFO (SavedTo (Slash out (spec_filename tk (format env s) (format env d))))],
             Returned))
    \<and> (\<forall>rows tk e left. history env k t s d = Frame rows \<and> rows \<noteq> [] \<and> t = JStr tk
          \<and> to_csv env k (Slash out (spec_filename tk (format env s) (format env d))) =
              WriteRaises e left \<longrightarrow>
          fetch_and_save_data env k r out =
            (Log INFO (Fetching t s d)
               # (if left
                  then [LeftFile (Slash out (spec_filename tk (format env s) (format env d)))]
                  else [])
               @ [Log ERROR (FetchOrSaveFailed t e)], Returned))
    \<and> (\<forall>rows. history env k t s d = Frame rows \<and> rows \<noteq> [] \<and> (\<forall>tk. t \<noteq> JStr tk) \<longrightarrow>
          fetch_and_save_data env k r out =
            ([Log INFO (Fetching t s d), Log ERROR (FetchOrSaveFailed t AttributeError)],
             Returned))"
proof (intro conjI allI impI)
  assume "history env k t s d = Frame []"
  with assms show "fetch_and_save_data env k r out =
      ([Log INFO (Fetching t s d), Log WARNING (NoDataFound t)], Returned)"
    by (rule worker_empty)
next
  fix rows tk
  assume h: "history env k t s d = Frame rows \<and> rows \<noteq> [] \<and> t = JStr tk
          \<and> to_csv_ok env k (Slash out (spec_filename tk (format env s) (format env d)))"
  then have "history env k t s d = Frame rows" and "rows \<noteq> []"
    by blast+
  with assms have "fetch_and_save_data env k r out =
      (Log INFO (Fetching t s d) # save_frame env k t s d out rows, Returned)"
    by (rule worker_rows)
  with h show "fetch_and_save_data env k r out =
            ([Log INFO (Fetching t s d),
              WroteCsv (Slash out (spec_filename tk (format env s) (format env d))) rows,
              Log INFO (SavedTo (Slash out (spec_filename tk (format env s) (format env d))))],
             Returned)"
    by (simp add: save_frame_ok)
next
  fix rows tk e left
  assume h: "history env k t s d = Frame rows \<and> rows \<noteq> [] \<and> t = JStr tk
          \<and> to_csv env k (Slash out (spec_filename tk (format env s) (format env d))) =
              WriteRaises e left"
  then have "history env k t s d = Frame rows" and "rows \<noteq> []"
    by blast+
  with assms have "fetch_and_save_data env k r out =
      (Log INFO (Fetching t s d) # save_frame env k t s d out rows, Returned)"
    by (rule worker_rows)
  with h show "fetch_and_save_data env k r out =
            (Log INFO (Fetching t s d)
               # (if left
                  then [LeftFile (Slash out (spec_filename tk (format env s) (format env d)))]
                  else [])
               @ [Log ERROR (FetchOrSaveFailed t e)], Returned)"
    by (simp add: save_frame_raises)
next
  fix rows
  assume h: "history env k t s d = Frame rows \<and> rows \<noteq> [] \<and> (\<forall>tk. t \<noteq> JStr tk)"
  then have "history env k t s d = Frame rows" and "rows \<noteq> []"
    by blast+
  with assms have "fetch_and_save_data env k r out =
      (Log INFO (Fetching t s d) # save_frame env k t s d out rows, Returned)"
    by (rule worker_rows)
  with h show "fetch_and_save_data env k r out =
            ([Log INFO (Fetching t s d), Log ERROR (FetchOrSaveFailed t AttributeError)],
             Returned)"
    by (simp add: save_frame_no_method)
qed

theorem worker_on_one_request_witness:
  "subscript future_request ''ticker'' = Inr (JStr ''BRK.B'')
   \<and> history (sample_world JNull) 0 (JStr ''BRK.B'') (JStr ''2031-01-01'') (JStr ''2031-12-31'') =
       Frame []
   \<and> fetch_and_save_data (sample_world JNull) 0 future_request OUTPUT_DIR =
       ([Log INFO (Fetching (JStr ''BRK.B'') (JStr ''2031-01-01'') (JStr ''2031-12-31'')),
         Log WARNING (NoDataFound (JStr ''BRK.B''))], Returned)
   \<and> subscript brk_request ''ticker'' = Inr (JStr ''BRK.B'')
   \<and> history (sample_world JNull) 0 (JStr ''BRK.B'') (JStr ''2020-01-01'') (JStr ''2020-12-31'') =
       Frame sample_rows
   \<and> sample_rows \<noteq> []
   \<and> to_csv_ok (sample_world JNull) 0 (Slash OUTPUT_DIR ''BRK_B_2020-01-01_to_2020-12-31.csv'')
   \<and> fetch_and_save_data (sample_world JNull) 0 brk_request OUTPUT_DIR =
       ([Log INFO (Fetching (JStr ''BRK.B'') (JStr ''2020-01-01'') (JStr ''2020-12-31'')),
         WroteCsv (Slash OUTPUT_DIR ''BRK_B_2020-01-01_to_2020-12-31.csv'') sample_rows,
         Log INFO (SavedTo (Slash OUTPUT_DIR ''BRK_B_2020-01-01_to_2020-12-31.csv''))], Returned)
   \<and> to_csv (read_only_world JNull) 0 (Slash OUTPUT_DIR ''BRK_B_2020-01-01_to_2020-12-31.csv'') =
       WriteRaises OSError False
   \<and> fetch_and_save_data (read_only_world JNull) 0 brk_request OUTPUT_DIR =
       ([Log INFO (Fetching (JStr ''BRK.B'') (JStr ''2020-01-01'') (JStr ''2020-12-31'')),
         Log ERROR (FetchOrSaveFailed (JStr ''BRK.B'') OSError)], Returned)
   \<and> to_csv (full_disk_world JNull) 0 (Slash OUTPUT_DIR ''BRK_B_2020-01-01_to_2020-12-31.csv'') =
       WriteRaises OSError True
   \<and> fetch_and_save_data (full_disk_world JNull) 0 brk_request OUTPUT_DIR =
       ([Log INFO (Fetching (JStr ''BRK.B'') (JStr ''2020-01-01'') (JStr ''2020-12-31'')),
         LeftFile (Slash OUTPUT_DIR ''BRK_B_2020-01-01_to_2020-12-31.csv''),
         Log ERROR (FetchOrSaveFailed (JStr ''BRK.B'') OSError)], Returned)"
proof -
  let ?w = "sample_world JNull" and ?ro = "read_only_world JNull"
    and ?fd = "full_disk_world JNull"
  have f0: "subscript future_request ''ticker'' = Inr (JStr ''BRK.B'')"
    "subscript future_request ''start_date'' = Inr (JStr ''2031-01-01'')"
    "subscript future_request ''end_date'' = Inr (JStr ''2031-12-31'')"
    by (simp_all add: future_request_def request_def)
  have h0: "history ?w 0 (JStr ''BRK.B'') (JStr ''2031-01-01'') (JStr ''2031-12-31'') = Frame []"
    by (simp add: sample_world_def sample_history_def)
  have f1: "subscript brk_request ''ticker'' = Inr (JStr ''BRK.B'')"
    "subscript brk_request ''start_date'' = Inr (JStr ''2020-01-01'')"
    "subscript brk_request ''end_date'' = Inr (JStr ''2020-12-31'')"
    by (simp_all add: brk_request_def request_def)
  have h1: "history ?w 0 (JStr ''BRK.B'') (JStr ''2020-01-01'') (JStr ''2020-12-31'') =
      Frame sample_rows"
    "history ?ro 0 (JStr ''BRK.B'') (JStr ''2020-01-01'') (JStr ''2020-12-31'') =
      Frame sample_rows"
    by (simp_all add: sample_world_def read_only_world_def sample_history_def)
  have rows: "sample_rows \<noteq> []"
    by (simp add: sample_rows_def)
  have name: "spec_filename ''BRK.B'' ''2020-01-01'' ''2020-12-31'' =
      ''BRK_B_2020-01-01_to_2020-12-31.csv''"
    by (simp add: spec_filename_def dot_to_underscore_def)
  have ok: "to_csv_ok ?w 0 (Slash OUTPUT_DIR ''BRK_B_2020-01-01_to_2020-12-31.csv'')"
    by (simp add: to_csv_ok_def sample_world_def writable_def)
  have no: "to_csv ?ro 0 (Slash OUTPUT_DIR ''BRK_B_2020-01-01_to_2020-12-31.csv'') =
      WriteRaises OSError False"
    by (simp add: read_only_world_def read_only_def)
  have 1: "fetch_and_save_data ?w 0 future_request OUTPUT_DIR =
       ([Log INFO (Fetching (JStr ''BRK.B'') (JStr ''2031-01-01'') (JStr ''2031-12-31'')),
         Log WARNING (NoDataFound (JStr ''BRK.B''))], Returned)"
    using worker_on_one_request[OF f0, of ?w 0 OUTPUT_DIR, THEN conjunct1] h0 by simp
  have 2: "fetch_and_save_data ?w 0 brk_request OUTPUT_DIR =
       ([Log INFO (Fetching (JStr ''BRK.B'') (JStr ''2020-01-01'') (JStr ''2020-12-31'')),
         WroteCsv (Slash OUTPUT_DIR ''BRK_B_2020-01-01_to_2020-12-31.csv'') sample_rows,
         Log INFO (SavedTo (Slash OUTPUT_DIR ''BRK_B_2020-01-01_to_2020-12-31.csv''))], Returned)"
    using worker_on_one_request[OF f1, of ?w 0 OUTPUT_DIR, THEN conjunct2, THEN conjunct1,
        rule_format, of sample_rows "''BRK.B''"] h1 rows ok name
    by simp
  have 3: "fetch_and_save_data ?ro 0 brk_request OUTPUT_DIR =
       ([Log INFO (Fetching (JStr ''BRK.B'') (JStr ''2020-01-01'') (JStr ''2020-12-31'')),
         Log ERROR (FetchOrSaveFailed (JStr ''BRK.B'') OSError)], Returned)"
    using worker_on_one_request[OF f1, of ?ro 0 OUTPUT_DIR, THEN conjunct2, THEN conjunct2,
        THEN conjunct1, rule_format, of sample_rows "''BRK.B''" OSError False] h1 rows no name
    by simp
  have h4: "history ?fd 0 (JStr ''BRK.B'') (JStr ''2020-01-01'') (JStr ''2020-12-31'') =
      Frame sample_rows"
    by (simp add: full_disk_world_def sample_history_def)
  have full: "to_csv ?fd 0 (Slash OUTPUT_DIR ''BRK_B_2020-01-01_to_2020-12-31.csv'') =
      WriteRaises OSError True"
    by (simp add: full_disk_world_def disk_full_def)
  have 4: "fetch_and_save_data ?fd 0 brk_request OUTPUT_DIR =
       ([Log INFO (Fetching (JStr ''BRK.B'') (JStr ''2020-01-01'') (JStr ''2020-12-31'')),
         LeftFile (Slash OUTPUT_DIR ''BRK_B_2020-01-01_to_2020-12-31.csv''),
         Log ERROR (FetchOrSaveFailed (JStr ''BRK.B'') OSError)], Returned)"
    using worker_on_one_request[OF f1, of ?fd 0 OUTPUT_DIR, THEN conjunct2, THEN conjunct2,
        THEN conjunct1, rule_format, of sample_rows "''BRK.B''" OSError True] h4 rows full name
    by simp
  from f0(1) h0 1 f1(1) h1(1) rows ok 2 no 3 full 4 show ?thesis by simp
qed

text \<open>
  C5, as stated: for every successful non-empty fetch the output file is named
  \<^verbatim>\<open>{sanitized_ticker}_{start_date}_to_{end_date}.csv\<close> under the fixed output directory.
  Only the \<^verbatim>\<open>.\<close> of the ticker is replaced, and the dates go into the name as they are; the
  name is then joined onto the directory, and a \<^verbatim>\<open>/\<close> in it is a separator. With the
  dates \<^verbatim>\<open>2020/01/01\<close> and \<^verbatim>\<open>2020/12/31\<close> the file written is \<^verbatim>\<open>31.csv\<close>, five directories
  down; with the ticker \<^verbatim>\<open>BRK/B\<close> it is \<^verbatim>\<open>B_2020-01-01_to_2020-12-31.csv\<close> in
  \<^verbatim>\<open>historical_data/BRK\<close>; with the ticker \<^verbatim>\<open>/tmp/x\<close> it is not under \<^verbatim>\<open>historical_data\<close> at
  all.
\<close>

theorem slash_in_a_field_moves_the_file:
  "history (sample_world JNull) 0 (JStr ''BRK.B'') (JStr ''2020/01/01'') (JStr ''2020/12/31'') =
     Frame sample_rows
   \<and> spec_filename ''BRK.B'' ''2020/01/01'' ''2020/12/31'' = ''BRK_B_2020/01/01_to_2020/12/31.csv''
   \<and> files_written (fst (fetch_and_save_data (sample_world JNull) 0 slash_dates_request OUTPUT_DIR)) =
       [PosixPath [] [''historical_data'', ''BRK_B_2020'', ''01'', ''01_to_2020'', ''12'', ''31.csv'']]
   \<and> history (sample_world JNull) 0 (JStr ''BRK/B'') (JStr ''2020-01-01'') (JStr ''2020-12-31'') =
     Frame sample_rows
   \<and> files_written (fst (fetch_and_save_data (sample_world JNull) 0 slash_request OUTPUT_DIR)) =
       [PosixPath [] [''historical_data'', ''BRK'', ''B_2020-01-01_to_2020-12-31.csv'']]
   \<and> history (sample_world JNull) 0 (JStr ''/tmp/x'') (JStr ''2020-01-01'') (JStr ''2020-12-31'') =
     Frame sample_rows
   \<and> files_written (fst (fetch_and_save_data (sample_world JNull) 0 absolute_request OUTPUT_DIR)) =
       [PosixPath ''/'' [''tmp'', ''x_2020-01-01_to_2020-12-31.csv'']]"
  by (simp add: fetch_and_save_data_def save_frame_def Let_def slash_dates_request_def
      slash_request_def absolute_request_def request_def sample_world_def sample_history_def
      sample_rows_def writable_def spec_filename_def dot_to_underscore_def OUTPUT_DIR_def
      Path_def components_def)

text \<open>
  C5, amended. For a request whose three fields are strings that hold no \<^verbatim>\<open>/\<close>, fetched
  with rows and saved, the one file written is named
  \<^verbatim>\<open>{sanitized_ticker}_{start_date}_to_{end_date}.csv\<close> and stands in \<^verbatim>\<open>historical_data\<close>
  itself: the dates are in the name as the request gives them, and the sanitized ticker
  is the ticker with every \<^verbatim>\<open>.\<close> turned into \<^verbatim>\<open>_\<close> and nothing else changed. For \<^verbatim>\<open>BRK.B\<close>
  from 2020-01-01 to 2020-12-31 the name is \<^verbatim>\<open>BRK_B_2020-01-01_to_2020-12-31.csv\<close>.
\<close>

theorem output_file_name:
  assumes "subscript r ''ticker'' = Inr (JStr t)"
    and "subscript r ''start_date'' = Inr (JStr start_date)"
    and "subscript r ''end_date'' = Inr (JStr end_date)"
    and "CHR ''/'' \<notin> set t" and "CHR ''/'' \<notin> set start_date" and "CHR ''/'' \<notin> set end_date"
    and "history env k (JStr t) (JStr start_date) (JStr end_date) = Frame rows"
    and "rows \<noteq> []"
    and "to_csv_ok env k (PosixPath [] [''historical_data'', spec_filename t start_date end_date])"
  shows "files_written (fst (fetch_and_save_data env k r OUTPUT_DIR)) =
      [PosixPath [] [''historical_data'', spec_filename t start_date end_date]]
    \<and> spec_filename t start_date end_date =
        map dot_to_underscore t @ ''_'' @ start_date @ ''_to_'' @ end_date @ ''.csv''
    \<and> CHR ''.'' \<notin> set (map dot_to_underscore t)
    \<and> length (map dot_to_underscore t) = length t
    \<and> (\<forall>i < length t.
          map dot_to_underscore t ! i = (if t ! i = CHR ''.'' then CHR ''_'' else t ! i))
    \<and> (t = ''BRK.B'' \<and> start_date = ''2020-01-01'' \<and> end_date = ''2020-12-31'' \<longrightarrow>
         files_written (fst (fetch_and_save_data env k r OUTPUT_DIR)) =
           [PosixPath [] [''historical_data'', ''BRK_B_2020-01-01_to_2020-12-31.csv'']])"
proof -
  let ?name = "spec_filename t start_date end_date"
  let ?p = "PosixPath [] [''historical_data'', ?name]"
  have p: "Slash OUTPUT_DIR ?name = ?p"
    using assms(4-6) by (rule output_path_plain)
  have given: "format env (JStr start_date) = start_date" "format env (JStr end_date) = end_date"
    by simp_all
  from assms(9) p
  have ok: "to_csv_ok env k (Slash OUTPUT_DIR
      (spec_filename t (format env (JStr start_date)) (format env (JStr end_date))))"
    by (simp only: given)
  have "fetch_and_save_data env k r OUTPUT_DIR =
      (Log INFO (Fetching (JStr t) (JStr start_date) (JStr end_date))
         # save_frame env k (JStr t) (JStr start_date) (JStr end_date) OUTPUT_DIR rows, Returned)"
    using assms(1-3,7,8) by (rule worker_rows)
  also have "save_frame env k (JStr t) (JStr start_date) (JStr end_date) OUTPUT_DIR rows =
      [WroteCsv ?p rows, Log INFO (SavedTo ?p)]"
    using save_frame_ok[OF ok] by (simp only: given p)
  finally have files: "files_written (fst (fetch_and_save_data env k r OUTPUT_DIR)) = [?p]"
    by simp
  have brk: "spec_filename ''BRK.B'' ''2020-01-01'' ''2020-12-31'' =
      ''BRK_B_2020-01-01_to_2020-12-31.csv''"
    by (simp add: spec_filename_def dot_to_underscore_def)
  have nodot: "CHR ''.'' \<notin> set (map dot_to_underscore t)"
    by (auto simp: dot_to_underscore_def)
  have nth: "\<forall>i < length t.
      map dot_to_underscore t ! i = (if t ! i = CHR ''.'' then CHR ''_'' else t ! i)"
    by (simp add: dot_to_underscore_def)
  have ex: "files_written (fst (fetch_and_save_data env k r OUTPUT_DIR)) =
           [PosixPath [] [''historical_data'', ''BRK_B_2020-01-01_to_2020-12-31.csv'']]"
    if "t = ''BRK.B'' \<and> start_date = ''2020-01-01'' \<and> end_date = ''2020-12-31''"
    using files that brk by simp
  have name: "?name = map dot_to_underscore t @ ''_'' @ start_date @ ''_to_'' @ end_date @ ''.csv''"
    by (simp add: spec_filename_def)
  from files name nodot nth ex show ?thesis
    by simp
qed

theorem output_file_name_witness:
  "subscript brk_request ''ticker'' = Inr (JStr ''BRK.B'')
   \<and> subscript brk_request ''start_date'' = Inr (JStr ''2020-01-01'')
   \<and> subscript brk_request ''end_date'' = Inr (JStr ''2020-12-31'')
   \<and> CHR ''/'' \<notin> set ''BRK.B'' \<and> CHR ''/'' \<notin> set ''2020-01-01'' \<and> CHR ''/'' \<notin> set ''2020-12-31''
   \<and> history (sample_world JNull) 0 (JStr ''BRK.B'') (JStr ''2020-01-01'') (JStr ''2020-12-31'') =
       Frame sample_rows
   \<and> sample_rows \<noteq> []
   \<and> to_csv_ok (sample_world JNull) 0
       (PosixPath [] [''historical_data'', spec_filename ''BRK.B'' ''2020-01-01'' ''2020-12-31''])
   \<and> files_written (fst (fetch_and_save_data (sample_world JNull) 0 brk_request OUTPUT_DIR)) =
       [PosixPath [] [''historical_data'', ''BRK_B_2020-01-01_to_2020-12-31.csv'']]"
proof -
  let ?w = "sample_world JNull"
  have f1: "subscript brk_request ''ticker'' = Inr (JStr ''BRK.B'')"
    "subscript brk_request ''start_date'' = Inr (JStr ''2020-01-01'')"
    "subscript brk_request ''end_date'' = Inr (JStr ''2020-12-31'')"
    by (simp_all add: brk_request_def request_def)
  have plain: "CHR ''/'' \<notin> set ''BRK.B''" "CHR ''/'' \<notin> set ''2020-01-01''"
    "CHR ''/'' \<notin> set ''2020-12-31''"
    by simp_all
  have h1: "history ?w 0 (JStr ''BRK.B'') (JStr ''2020-01-01'') (JStr ''2020-12-31'') =
      Frame sample_rows"
    by (simp add: sample_world_def sample_history_def)
  have rows: "sample_rows \<noteq> []"
    by (simp add: sample_rows_def)
  have ok: "to_csv_ok ?w 0
      (PosixPath [] [''historical_data'', spec_filename ''BRK.B'' ''2020-01-01'' ''2020-12-31''])"
    by (simp add: to_csv_ok_def sample_world_def writable_def)
  note th = output_file_name[OF f1 plain h1 rows ok]
  have "files_written (fst (fetch_and_save_data ?w 0 brk_request OUTPUT_DIR)) =
       [PosixPath [] [''historical_data'', ''BRK_B_2020-01-01_to_2020-12-31.csv'']]"
    using th[THEN conjunct2, THEN conjunct2, THEN conjunct2, THEN conjunct2, THEN conjunct2]
    by simp
  with f1 plain h1 rows ok show ?thesis by simp
qed

text \<open>
  C6. The comment of line 92 says "Replaces characters that are invalid in filenames";
  line 93 replaces the \<^verbatim>\<open>.\<close> and nothing else. For the ticker \<^verbatim>\<open>BRK/B\<close> the sanitized
  ticker is \<^verbatim>\<open>BRK/B\<close>, and the name handed to \<^verbatim>\<open>to_csv\<close> holds the \<^verbatim>\<open>/\<close>, which no file
  name can hold.
\<close>

theorem slash_is_left_in_the_name:
  "subscript slash_request ''ticker'' = Inr (JStr ''BRK/B'')
   \<and> replace_method (JStr ''BRK/B'') ''.'' ''_'' = Inr ''BRK/B''
   \<and> invalid_in_filename (CHR ''/'')
   \<and> CHR ''/'' \<in> set ''BRK/B''
   \<and> files_written (fst (fetch_and_save_data (sample_world JNull) 0 slash_request OUTPUT_DIR)) =
       [Slash OUTPUT_DIR ''BRK/B_2020-01-01_to_2020-12-31.csv'']"
  by (simp add: fetch_and_save_data_def save_frame_def slash_request_def request_def
      sample_world_def sample_history_def sample_rows_def writable_def invalid_in_filename_def
      Let_def)

text \<open>
  C7, as stated: no item with an empty string in one of the three fields is ever
  returned. The loader tests that the keys are there and never reads a value: the list
  holding one object whose three fields are empty strings is loaded and returned.
\<close>

theorem blank_fields_are_loaded:
  "load_config (sample_world (JArr [blank_request])) ''config.json'' =
     ([Log INFO (LoadedRequests 1 ''config.json'')], Inr [blank_request])
   \<and> subscript blank_request ''ticker'' = Inr (JStr [])
   \<and> subscript blank_request ''start_date'' = Inr (JStr [])
   \<and> subscript blank_request ''end_date'' = Inr (JStr [])"
  by (simp add: load_config_def sample_world_def config_holding_def blank_request_def
      request_def required_keys_def)

text \<open>
  C7, amended. Every item a successful load returns passed the test of lines 47 to 49,
  and every object among them has the three fields. Their values are not checked.
\<close>

theorem loaded_objects_have_the_fields:
  assumes "load_config env config_path = (evs, Inr requests)"
    and "r \<in> set requests"
  shows "all_in required_keys r = Inr True
    \<and> (\<forall>kvs. r = JObj kvs \<longrightarrow>
          (\<exists>t s d. subscript r ''ticker'' = Inr t \<and> subscript r ''start_date'' = Inr s
             \<and> subscript r ''end_date'' = Inr d))"
proof -
  from assms(1) have "validate requests = Inr ()"
    using load_config_returns by blast
  then have ok: "all_in required_keys r = Inr True"
    using assms(2) by (rule validate_sound)
  have "\<exists>t s d. subscript r ''ticker'' = Inr t \<and> subscript r ''start_date'' = Inr s
             \<and> subscript r ''end_date'' = Inr d" if "r = JObj kvs" for kvs
  proof -
    from ok that have "is_request r" using all_in_object by blast
    then show ?thesis by (rule is_request_fields) blast
  qed
  with ok show ?thesis by blast
qed

theorem loaded_objects_have_the_fields_witness:
  "load_config (sample_world (JArr [blank_request])) ''config.json'' =
     ([Log INFO (LoadedRequests 1 ''config.json'')], Inr [blank_request])
   \<and> blank_request \<in> set [blank_request]
   \<and> all_in required_keys blank_request = Inr True
   \<and> (\<exists>t s d. subscript blank_request ''ticker'' = Inr t
         \<and> subscript blank_request ''start_date'' = Inr s
         \<and> subscript blank_request ''end_date'' = Inr d)"
proof -
  have a: "load_config (sample_world (JArr [blank_request])) ''config.json'' =
     ([Log INFO (LoadedRequests 1 ''config.json'')], Inr [blank_request])"
    by (simp add: load_config_def sample_world_def config_holding_def blank_request_def
      request_def required_keys_def)
  have b: "blank_request \<in> set [blank_request]" by simp
  have c: "blank_request = JObj [(''ticker'', JStr []), (''start_date'', JStr []),
           (''end_date'', JStr [])]"
    by (simp add: blank_request_def request_def)
  note th = loaded_objects_have_the_fields[OF a b]
  from th[THEN conjunct1] th[THEN conjunct2, rule_format, OF c] a b show ?thesis
    by simp
qed

text \<open>
  C8. Run with a configuration path where there is no file, the driver logs one error
  and exits with status 1: a status that is not 0, no directory made, no file written.
\<close>

theorem missing_config_changes_nothing:
  assumes "read_config env (config_arg arg) = Missing"
  shows "main env arg = ([Log ERROR (ConfigNotFound (config_arg arg))], Exit 1)
    \<and> exit_status (snd (main env arg)) \<noteq> 0
    \<and> dirs_made (fst (main env arg)) = []
    \<and> files_written (fst (main env arg)) = []"
  using assms by (simp add: main_def load_config_def)

theorem missing_config_changes_nothing_witness:
  "read_config (sample_world JNull) (config_arg (Some ''nowhere.json'')) = Missing
   \<and> main (sample_world JNull) (Some ''nowhere.json'') =
       ([Log ERROR (ConfigNotFound ''nowhere.json'')], Exit 1)
   \<and> exit_status (snd (main (sample_world JNull) (Some ''nowhere.json''))) \<noteq> 0
   \<and> dirs_made (fst (main (sample_world JNull) (Some ''nowhere.json''))) = []
   \<and> files_written (fst (main (sample_world JNull) (Some ''nowhere.json''))) = []"
proof -
  have a: "read_config (sample_world JNull) (config_arg (Some ''nowhere.json'')) = Missing"
    by (simp add: sample_world_def config_holding_def)
  from missing_config_changes_nothing[OF a] a show ?thesis
    by simp
qed

text \<open>
  C9, as stated: with the list \<^verbatim>\<open>[]\<close> in the configuration the run logs a warning and
  exits with status 0. The driver makes the output directory before it looks at the
  list, and \<^verbatim>\<open>except OSError\<close> (lines 128 to 130) exits with status 1: where the
  directory cannot be made, the run with \<^verbatim>\<open>[]\<close> logs no warning and its status is 1.
\<close>

theorem empty_list_in_read_only_directory:
  "read_config (read_only_world (JArr [])) (config_arg None) = Parsed (JArr [])
   \<and> main (read_only_world (JArr [])) None =
       ([Log INFO (LoadedRequests 0 ''config.json''),
         Log ERROR (OutputDirFailed OUTPUT_DIR)], Exit 1)
   \<and> exit_status (snd (main (read_only_world (JArr [])) None)) = 1
   \<and> logged WARNING (fst (main (read_only_world (JArr [])) None)) = []"
  by (simp add: main_def load_config_def read_only_world_def config_holding_def)

text \<open>
  C9, amended. With the list \<^verbatim>\<open>[]\<close> in the configuration, and the output directory made
  or already there, the run logs the warning, writes no file and exits with status 0,
  without the final message of a batch.
\<close>

theorem empty_list_warns_and_exits_0:
  assumes "read_config env (config_arg arg) = Parsed (JArr [])"
    and "mkdir_ok env"
  shows "main env arg =
      ([Log INFO (LoadedRequests 0 (config_arg arg)), Mkdir OUTPUT_DIR,
        Log INFO (OutputDirSet OUTPUT_DIR), Log WARNING NoRequests], Exit 0)
    \<and> logged WARNING (fst (main env arg)) = [NoRequests]
    \<and> files_written (fst (main env arg)) = []
    \<and> exit_status (snd (main env arg)) = 0
    \<and> AllComplete \<notin> set (logged INFO (fst (main env arg)))"
  using assms by (simp add: main_def load_config_def)

theorem empty_list_warns_and_exits_0_witness:
  "read_config (sample_world (JArr [])) (config_arg None) = Parsed (JArr [])
   \<and> mkdir_ok (sample_world (JArr []))
   \<and> main (sample_world (JArr [])) None =
      ([Log INFO (LoadedRequests 0 ''config.json''), Mkdir OUTPUT_DIR,
        Log INFO (OutputDirSet OUTPUT_DIR), Log WARNING NoRequests], Exit 0)
   \<and> exit_status (snd (main (sample_world (JArr [])) None)) = 0"
proof -
  have a: "read_config (sample_world (JArr [])) (config_arg None) = Parsed (JArr [])"
    by (simp add: sample_world_def config_holding_def)
  have b: "mkdir_ok (sample_world (JArr []))"
    by (simp add: sample_world_def)
  from empty_list_warns_and_exits_0[OF a b] a b show ?thesis
    by simp
qed

text \<open>
  C10, as stated: every successful load, also of \<^verbatim>\<open>[]\<close>, has the output directory made.
  Where \<^verbatim>\<open>mkdir\<close> raises \<^verbatim>\<open>OSError\<close> the load has succeeded and no directory is made.
\<close>

theorem no_directory_where_none_can_be_made:
  "load_config (read_only_world (JArr [])) (config_arg None) =
     ([Log INFO (LoadedRequests 0 ''config.json'')], Inr [])
   \<and> dirs_made (fst (main (read_only_world (JArr [])) None)) = []"
  by (simp add: main_def load_config_def read_only_world_def config_holding_def)

text \<open>
  C10, amended. After every successful load, also of \<^verbatim>\<open>[]\<close>, the first thing the driver
  does is \<^verbatim>\<open>mkdir\<close> on \<^verbatim>\<open>historical_data\<close>, before it looks at the list. When the call
  returns, the directory is there (once, right after the loader's log line) whatever
  the list holds, and with an empty list no file is written and the status is 0. When
  the call raises \<^verbatim>\<open>OSError\<close>, the run logs the error and exits with status 1, and no
  directory is made.
\<close>

theorem directory_is_made_before_the_list_is_read:
  assumes "load_config env (config_arg arg) = (loaded, Inr requests)"
  shows "(mkdir_ok env \<longrightarrow>
            (\<exists>rest. fst (main env arg) = loaded @ Mkdir OUTPUT_DIR # rest)
          \<and> dirs_made (fst (main env arg)) = [OUTPUT_DIR]
          \<and> (requests = [] \<longrightarrow> files_written (fst (main env arg)) = []
                \<and> snd (main env arg) = Exit 0))
    \<and> (\<not> mkdir_ok env \<longrightarrow>
          main env arg = (loaded @ [Log ERROR (OutputDirFailed OUTPUT_DIR)], Exit 1)
          \<and> dirs_made (fst (main env arg)) = [])"
proof -
  from assms have loaded: "loaded = [Log INFO (LoadedRequests (length requests) (config_arg arg))]"
    using load_config_returns by blast
  obtain evs st where p: "process_requests env 0 requests = (evs, st)"
    by (cases "process_requests env 0 requests")
  with process_makes_no_dir[of env 0 requests] have e: "dirs_made evs = []"
    by simp
  show ?thesis
  proof (cases "mkdir_ok env")
    case False
    with assms loaded show ?thesis by (simp add: main_def)
  next
    case True
    show ?thesis
    proof (cases "requests = []")
      case True
      with assms loaded \<open>mkdir_ok env\<close> show ?thesis by (simp add: main_def)
    next
      case False
      with assms loaded p e \<open>mkdir_ok env\<close> show ?thesis
        by (cases st) (simp_all add: main_def dirs_made_append)
    qed
  qed
qed

theorem directory_is_made_before_the_list_is_read_witness:
  "load_config (sample_world (JArr [])) (config_arg None) =
     ([Log INFO (LoadedRequests 0 ''config.json'')], Inr [])
   \<and> mkdir_ok (sample_world (JArr []))
   \<and> dirs_made (fst (main (sample_world (JArr [])) None)) = [OUTPUT_DIR]
   \<and> files_written (fst (main (sample_world (JArr [])) None)) = []
   \<and> load_config (read_only_world (JArr [])) (config_arg None) =
     ([Log INFO (LoadedRequests 0 ''config.json'')], Inr [])
   \<and> \<not> mkdir_ok (read_only_world (JArr []))
   \<and> main (read_only_world (JArr [])) None =
       ([Log INFO (LoadedRequests 0 ''config.json''),
         Log ERROR (OutputDirFailed OUTPUT_DIR)], Exit 1)"
proof -
  have a: "load_config (sample_world (JArr [])) (config_arg None) =
     ([Log INFO (LoadedRequests 0 ''config.json'')], Inr [])"
    by (simp add: load_config_def sample_world_def config_holding_def)
  have b: "mkdir_ok (sample_world (JArr []))"
    by (simp add: sample_world_def)
  have c: "load_config (read_only_world (JArr [])) (config_arg None) =
     ([Log INFO (LoadedRequests 0 ''config.json'')], Inr [])"
    by (simp add: load_config_def read_only_world_def config_holding_def)
  have d: "\<not> mkdir_ok (read_only_world (JArr []))"
    by (simp add: read_only_world_def)
  from directory_is_made_before_the_list_is_read[OF a] b
  have 1: "dirs_made (fst (main (sample_world (JArr [])) None)) = [OUTPUT_DIR]
    \<and> files_written (fst (main (sample_world (JArr [])) None)) = []"
    by simp
  from directory_is_made_before_the_list_is_read[OF c] d
  have 2: "main (read_only_world (JArr [])) None =
       ([Log INFO (LoadedRequests 0 ''config.json''),
         Log ERROR (OutputDirFailed OUTPUT_DIR)], Exit 1)"
    by simp
  from a b c d 1 2 show ?thesis by simp
qed

end
